theory Spec2Isabelle
  imports Complex_Main
begin

text \<open>
  The state layer of the member portal: the row mappers of \<open>src/types/index.ts\<close>, the
  bookmark store, the profile store, the auth store and the training progress service.

  The stores are state machines over a record of their fields. An operation takes the
  answers of the remote store to the requests it may send, and the state; it returns
  what the caller sees (\<open>Inl\<close> a thrown error, \<open>Inr\<close> the returned value), the new
  state, and the requests it sent, in order.
\<close>

section \<open>JavaScript values and the remote store client\<close>

text \<open>
  A property of a JavaScript object is absent (\<open>undefined\<close>), \<open>null\<close>, or holds a value.
\<close>

datatype 'a field = Undefined | Null | Val 'a

text \<open>The operator \<open>a ?? b\<close>: \<open>b\<close> when \<open>a\<close> is \<open>null\<close> or \<open>undefined\<close>, else \<open>a\<close>.\<close>

fun nullish :: "'a field \<Rightarrow> 'a field \<Rightarrow> 'a field" where
  "nullish Undefined d = d"
| "nullish Null d = d"
| "nullish (Val v) d = Val v"

text \<open>
  A JavaScript number: a finite value, \<open>Infinity\<close>, \<open>-Infinity\<close> or \<open>NaN\<close>.
  \<open>Math.max\<close> and \<open>Math.min\<close> return \<open>NaN\<close> when an argument is \<open>NaN\<close>, and
  otherwise the larger (smaller) argument, without rounding.
\<close>

datatype number = Num real | PosInfinity | NegInfinity | NaN

fun Math_max :: "number \<Rightarrow> number \<Rightarrow> number" where
  "Math_max NaN b = NaN"
| "Math_max a NaN = NaN"
| "Math_max PosInfinity b = PosInfinity"
| "Math_max a PosInfinity = PosInfinity"
| "Math_max NegInfinity b = b"
| "Math_max a NegInfinity = a"
| "Math_max (Num x) (Num y) = Num (max x y)"

fun Math_min :: "number \<Rightarrow> number \<Rightarrow> number" where
  "Math_min NaN b = NaN"
| "Math_min a NaN = NaN"
| "Math_min NegInfinity b = NegInfinity"
| "Math_min a NegInfinity = NegInfinity"
| "Math_min PosInfinity b = b"
| "Math_min a PosInfinity = a"
| "Math_min (Num x) (Num y) = Num (min x y)"

text \<open>A number in the interval from 0 to 100.\<close>

fun inRange :: "number \<Rightarrow> bool" where
  "inRange (Num x) = (0 \<le> x \<and> x \<le> 100)"
| "inRange _ = False"

text \<open>
  Thrown values. \<open>Error msg\<close> is \<open>new Error(msg)\<close> or an error object of the remote
  store client, named by its message; \<open>TypeError\<close> is the runtime's error on reading a
  property of \<open>null\<close>.
\<close>

datatype error = Error string | TypeError

text \<open>
  \<open>await call\<close> on the remote store client: the promise is fulfilled with a response
  object, or it is rejected, and then \<open>await\<close> throws.
\<close>

datatype 'a awaited = Resolved 'a | Rejected error

text \<open>
  The response of a row query, which the code destructures as \<open>{ data, error }\<close>.
\<close>

record 'a response =
  data :: "'a option"
  error :: "error option"

section \<open>\<open>src/types/index.ts\<close>\<close>

text \<open>
  A row of table \<open>accounts\<close> as the remote store returns it (\<open>row: any\<close>); the
  fields carry the prefix \<open>r_\<close>. \<open>Account\<close> is the interface of the same name, its
  fields prefixed \<open>a_\<close>.
\<close>

record account_row =
  r_id :: "string field"
  r_email :: "string field"
  r_pharmacy_name :: "string field"
  r_pharmacy_phone :: "string field"
  r_subscription_status :: "string field"
  r_created_at :: "string field"
  r_updated_at :: "string field"
  r_address1 :: "string field"
  r_city :: "string field"
  r_state :: "string field"
  r_zipcode :: "string field"

record Account =
  a_id :: "string field"
  a_email :: "string field"
  a_pharmacyName :: "string field"
  a_pharmacyPhone :: "string field"
  a_subscriptionStatus :: "string field"
  a_createdAt :: "string field"
  a_updatedAt :: "string field"
  a_address1 :: "string field"
  a_city :: "string field"
  a_state :: "string field"
  a_zipcode :: "string field"

definition mapRowToAccount :: "account_row \<Rightarrow> Account" where
  "mapRowToAccount row =
     \<lparr> a_id = r_id row,
       a_email = r_email row,
       a_pharmacyName = r_pharmacy_name row,
       a_pharmacyPhone = nullish (r_pharmacy_phone row) Null,
       a_subscriptionStatus = nullish (r_subscription_status row) (Val ''inactive''),
       a_createdAt = r_created_at row,
       a_updatedAt = nullish (r_updated_at row) Null,
       a_address1 = nullish (r_address1 row) Null,
       a_city = nullish (r_city row) Null,
       a_state = nullish (r_state row) Null,
       a_zipcode = nullish (r_zipcode row) Null \<rparr>"

text \<open>
  A row of table \<open>member_profiles\<close> (prefix \<open>pr_\<close>) and the interface
  \<open>MemberProfile\<close> (prefix \<open>m_\<close>).
\<close>

record profile_row =
  pr_id :: "string field"
  pr_account_id :: "string field"
  pr_full_name :: "string field"
  pr_role :: "string field"
  pr_email :: "string field"
  pr_phone :: "string field"
  pr_is_active :: "bool field"
  pr_created_at :: "string field"
  pr_updated_at :: "string field"

record MemberProfile =
  m_id :: "string field"
  m_accountId :: "string field"
  m_fullName :: "string field"
  m_role :: "string field"
  m_email :: "string field"
  m_phone :: "string field"
  m_isActive :: bool
  m_createdAt :: "string field"
  m_updatedAt :: "string field"

text \<open>\<open>!!v\<close> on a boolean column.\<close>

fun double_not :: "bool field \<Rightarrow> bool" where
  "double_not (Val b) = b"
| "double_not _ = False"

definition mapRowToProfile :: "profile_row \<Rightarrow> MemberProfile" where
  "mapRowToProfile row =
     \<lparr> m_id = pr_id row,
       m_accountId = pr_account_id row,
       m_fullName = pr_full_name row,
       m_role = pr_role row,
       m_email = nullish (pr_email row) Null,
       m_phone = nullish (pr_phone row) Null,
       m_isActive = double_not (pr_is_active row),
       m_createdAt = pr_created_at row,
       m_updatedAt = nullish (pr_updated_at row) Null \<rparr>"

section \<open>Requests to the remote store\<close>

text \<open>
  The object \<open>updateData\<close> of \<open>updateTrainingProgress\<close>. The key \<open>completed_at\<close> is
  set only in the branch \<open>if (isCompleted)\<close>, so it is optional here. \<open>now\<close> is
  what \<open>new Date().toISOString()\<close> returns.
\<close>

record training_update =
  completion_percentage :: number
  is_completed :: bool
  completed_at :: "string option"

text \<open>The payload of \<open>updateAccount\<close> (prefix \<open>u_\<close>) and of \<open>addProfile\<close> (prefix \<open>i_\<close>).\<close>

record account_update =
  u_pharmacy_name :: "string field"
  u_pharmacy_phone :: "string field"
  u_subscription_status :: "string field"
  u_address1 :: "string field"
  u_city :: "string field"
  u_state :: "string field"
  u_zipcode :: "string field"
  u_updated_at :: "string field"

record profile_insert =
  i_account_id :: "string field"
  i_full_name :: "string field"
  i_role :: "string field"
  i_email :: "string field"
  i_phone :: "string field"
  i_is_active :: "bool field"

text \<open>
  Every request the code sends to the remote store, with its arguments: the filters of
  \<open>.eq\<close> and the payload. Each operation below returns, with its result, the requests
  it sent, in order.
\<close>

datatype remote_call =
    CatalogSelect string
  | BookmarkDelete string string
  | BookmarkInsert string string string
  | BookmarkSelect string string
  | AuthSignOut
  | AuthGetSession
  | AccountSelect string
  | AccountUpdate string account_update
  | ProfileInsert profile_insert
  | TrainingUpdate string string training_update

section \<open>Training progress (profile dashboard service)\<close>

text \<open>The parameter \<open>isCompleted: boolean = false\<close>: an omitted argument is \<open>False\<close>.\<close>

definition default_false :: "bool option \<Rightarrow> bool" where
  "default_false b = (case b of None \<Rightarrow> False | Some v \<Rightarrow> v)"

definition updateData :: "string \<Rightarrow> number \<Rightarrow> bool option \<Rightarrow> training_update" where
  "updateData now completionPercentage isCompleted =
     (let u = \<lparr> completion_percentage = Math_min (Num 100) (Math_max (Num 0) completionPercentage),
                 is_completed = default_false isCompleted,
                 completed_at = None \<rparr>
      in if default_false isCompleted then u\<lparr>completed_at := Some now\<rparr> else u)"

text \<open>
  \<open>updateTrainingProgress\<close> sends one update and throws the error of the response, if
  any.
\<close>

definition updateTrainingProgress ::
  "string \<Rightarrow> unit response awaited \<Rightarrow> string \<Rightarrow> string \<Rightarrow> number \<Rightarrow> bool option
     \<Rightarrow> (error + unit) \<times> remote_call list" where
  "updateTrainingProgress now upd profileId trainingModuleId completionPercentage isCompleted =
     (let calls = [TrainingUpdate profileId trainingModuleId
                     (updateData now completionPercentage isCompleted)]
      in case upd of
           Rejected e \<Rightarrow> (Inl e, calls)
         | Resolved r \<Rightarrow>
             (case error r of Some e \<Rightarrow> (Inl e, calls) | None \<Rightarrow> (Inr (), calls)))"

definition completeTrainingModule ::
  "string \<Rightarrow> unit response awaited \<Rightarrow> string \<Rightarrow> string \<Rightarrow> (error + unit) \<times> remote_call list" where
  "completeTrainingModule now upd profileId trainingModuleId =
     updateTrainingProgress now upd profileId trainingModuleId (Num 100) (Some True)"

section \<open>\<open>src/stores/resourceBookmarkStore.ts\<close>\<close>

text \<open>
  Of \<open>StorageFileItem\<close> the store reads \<open>path\<close> and the optional \<open>catalogId\<close>. The
  cache \<open>bookmarkedResources\<close> is a \<open>Map\<close> from path to catalog id.
\<close>

record StorageFileItem =
  path :: string
  catalogId :: "string option"

record ResourceBookmarkState =
  bookmarkedResources :: "string \<rightharpoonup> string"
  loading :: bool

text \<open>Truthiness of an optional string: \<open>undefined\<close>, \<open>null\<close> and \<open>''\<close> are falsy.\<close>

definition truthy :: "string option \<Rightarrow> bool" where
  "truthy v = (case v of None \<Rightarrow> False | Some s \<Rightarrow> s \<noteq> [])"

definition isBookmarked :: "ResourceBookmarkState \<Rightarrow> string \<Rightarrow> bool" where
  "isBookmarked s resourcePath = (bookmarkedResources s resourcePath \<noteq> None)"

text \<open>
  The remote store's answers to the three requests one call of \<open>toggleBookmark\<close> can
  send. The catalog lookup selects \<open>id\<close> with \<open>.single()\<close>.
\<close>

record catalog_ref =
  ref_id :: string

record toggle_remote =
  catalog_single :: "catalog_ref response awaited"
  bookmark_delete :: "unit response awaited"
  bookmark_insert :: "unit response awaited"

text \<open>
  Lines 36 to 52: the catalog id of the resource, looked up by path when the resource
  carries none and is not bookmarked. Only \<open>data\<close> of the response is read;
  \<open>data?.id\<close> is \<open>map_option ref_id (data r)\<close>.
\<close>

definition resolveCatalogId ::
  "toggle_remote \<Rightarrow> StorageFileItem \<Rightarrow> bool \<Rightarrow> (error + string option) \<times> remote_call list" where
  "resolveCatalogId remote resource wasBookmarked =
     (if \<not> truthy (catalogId resource) \<and> \<not> wasBookmarked then
        (case catalog_single remote of
           Rejected e \<Rightarrow> (Inl e, [CatalogSelect (path resource)])
         | Resolved r \<Rightarrow>
             if truthy (map_option ref_id (data r))
             then (Inr (map_option ref_id (data r)), [CatalogSelect (path resource)])
             else (Inl (Error ''Resource not found in catalog''),
                   [CatalogSelect (path resource)]))
      else (Inr (catalogId resource), []))"

text \<open>
  Lines 54 to 94, the \<open>try\<close> block; its \<open>catch\<close> logs and throws the same error again.
  The responses of \<open>delete\<close> and \<open>insert\<close> are awaited and not read.
\<close>

definition toggleBody ::
  "toggle_remote \<Rightarrow> string \<Rightarrow> StorageFileItem \<Rightarrow> string option \<Rightarrow> ResourceBookmarkState
     \<Rightarrow> (error + unit) \<times> ResourceBookmarkState \<times> remote_call list" where
  "toggleBody remote profileId resource catalogId' s =
     (case bookmarkedResources s (path resource) of
        Some existingCatalogId \<Rightarrow>
          if existingCatalogId = [] then (Inr (), s, [])
          else
            (case bookmark_delete remote of
               Rejected e \<Rightarrow> (Inl e, s, [BookmarkDelete profileId existingCatalogId])
             | Resolved r \<Rightarrow>
                 (Inr (),
                  s\<lparr>bookmarkedResources := (bookmarkedResources s)(path resource := None)\<rparr>,
                  [BookmarkDelete profileId existingCatalogId]))
      | None \<Rightarrow>
          (case catalogId' of
             None \<Rightarrow> (Inl (Error ''Catalog ID required to create bookmark''), s, [])
           | Some c \<Rightarrow>
               if c = [] then (Inl (Error ''Catalog ID required to create bookmark''), s, [])
               else
                 (case bookmark_insert remote of
                    Rejected e \<Rightarrow> (Inl e, s, [BookmarkInsert profileId ''file'' c])
                  | Resolved r \<Rightarrow>
                      (Inr (),
                       s\<lparr>bookmarkedResources := (bookmarkedResources s)(path resource \<mapsto> c)\<rparr>,
                       [BookmarkInsert profileId ''file'' c]))))"

definition toggleBookmark ::
  "toggle_remote \<Rightarrow> string \<Rightarrow> StorageFileItem \<Rightarrow> ResourceBookmarkState
     \<Rightarrow> (error + unit) \<times> ResourceBookmarkState \<times> remote_call list" where
  "toggleBookmark remote profileId resource s =
     (let wasBookmarked = (bookmarkedResources s (path resource) \<noteq> None)
      in case resolveCatalogId remote resource wasBookmarked of
           (Inl e, calls) \<Rightarrow> (Inl e, s, calls)
         | (Inr catalogId', calls) \<Rightarrow>
             (case toggleBody remote profileId resource catalogId' s of
                (res, s', calls') \<Rightarrow> (res, s', calls @ calls')))"

text \<open>
  A sequence of calls \<open>toggleBookmark(profileId, resource)\<close>, one per element of the
  list of remote answers. It returns the last state and how many calls returned without
  throwing.
\<close>

fun toggleMany ::
  "toggle_remote list \<Rightarrow> string \<Rightarrow> StorageFileItem \<Rightarrow> ResourceBookmarkState
     \<Rightarrow> ResourceBookmarkState \<times> nat" where
  "toggleMany [] profileId resource s = (s, 0)"
| "toggleMany (remote # rest) profileId resource s =
     (case toggleBookmark remote profileId resource s of
        (Inl e, s', calls) \<Rightarrow> toggleMany rest profileId resource s'
      | (Inr u, s', calls) \<Rightarrow>
          (case toggleMany rest profileId resource s' of (s'', n) \<Rightarrow> (s'', Suc n)))"

text \<open>
  A row of the joined select of \<open>loadBookmarks\<close>: \<open>resource_id\<close> and the joined
  catalog entry, which is \<open>null\<close> when the resource is gone from the catalog.
\<close>

record catalog_join =
  join_id :: string
  file_path :: "string option"

record bookmark_row =
  resource_id :: string
  storage_files_catalog :: "catalog_join option"

text \<open>\<open>file_path.replace(/^\/+/, '')\<close>: the path without its leading slashes.\<close>

definition normalizePath :: "string \<Rightarrow> string" where
  "normalizePath p = dropWhile (\<lambda>c. c = CHR ''/'') p"

text \<open>The body of the loop over the rows, and the loop.\<close>

definition addRow :: "(string \<rightharpoonup> string) \<Rightarrow> bookmark_row \<Rightarrow> (string \<rightharpoonup> string)" where
  "addRow resources bookmark =
     (case storage_files_catalog bookmark of
        None \<Rightarrow> resources
      | Some j \<Rightarrow>
          (case file_path j of
             None \<Rightarrow> resources
           | Some p \<Rightarrow>
               if p \<noteq> [] then resources(normalizePath p \<mapsto> resource_id bookmark)
               else resources))"

definition buildResources :: "bookmark_row list \<Rightarrow> (string \<rightharpoonup> string)" where
  "buildResources rows = foldl addRow Map.empty rows"

text \<open>
  \<open>loadBookmarks\<close> never throws: its \<open>catch\<close> logs the error, and \<open>finally\<close> resets
  \<open>loading\<close>.
\<close>

definition loadBookmarks ::
  "bookmark_row list response awaited \<Rightarrow> string \<Rightarrow> ResourceBookmarkState
     \<Rightarrow> (error + unit) \<times> ResourceBookmarkState \<times> remote_call list" where
  "loadBookmarks sel profileId s =
     (let s1 = s\<lparr>loading := True\<rparr>;
          calls = [BookmarkSelect profileId ''file''];
          tried =
            (case sel of
               Rejected e \<Rightarrow> (Inl e, s1)
             | Resolved r \<Rightarrow>
                 (case error r of
                    Some e \<Rightarrow> (Inl e, s1)
                  | None \<Rightarrow>
                      (Inr (),
                       s1\<lparr>bookmarkedResources :=
                            buildResources (case data r of None \<Rightarrow> [] | Some rows \<Rightarrow> rows)\<rparr>)))
      in (Inr (), (snd tried)\<lparr>loading := False\<rparr>, calls))"

definition clearBookmarks :: "ResourceBookmarkState \<Rightarrow> ResourceBookmarkState" where
  "clearBookmarks s = s\<lparr>bookmarkedResources := Map.empty\<rparr>"

section \<open>\<open>src/stores/profileStore.ts\<close>: the profile store\<close>

text \<open>
  The argument of \<open>addProfile\<close> (prefix \<open>n_\<close>): a profile without \<open>id\<close>,
  \<open>createdAt\<close> and \<open>updatedAt\<close>. A caller that passes \<open>{}\<close> leaves every field
  \<open>Undefined\<close>.
\<close>

record profile_input =
  n_accountId :: "string field"
  n_fullName :: "string field"
  n_role :: "string field"
  n_email :: "string field"
  n_phone :: "string field"
  n_isActive :: "bool field"

record ProfileState =
  currentProfile :: "MemberProfile option"
  profiles :: "MemberProfile list"

definition insertPayload :: "profile_input \<Rightarrow> profile_insert" where
  "insertPayload p =
     \<lparr> i_account_id = n_accountId p,
       i_full_name = n_fullName p,
       i_role = n_role p,
       i_email = nullish (n_email p) Null,
       i_phone = nullish (n_phone p) Null,
       i_is_active = nullish (n_isActive p) (Val True) \<rparr>"

text \<open>
  \<open>addProfile\<close> builds the payload, inserts it, throws the error of the response and
  appends the mapped row. \<open>mapRowToProfile(null)\<close> is a TypeError.
\<close>

definition addProfile ::
  "profile_row response awaited \<Rightarrow> profile_input \<Rightarrow> ProfileState
     \<Rightarrow> (error + MemberProfile) \<times> ProfileState \<times> remote_call list" where
  "addProfile ins p s =
     (let calls = [ProfileInsert (insertPayload p)]
      in case ins of
           Rejected e \<Rightarrow> (Inl e, s, calls)
         | Resolved r \<Rightarrow>
             (case error r of
                Some e \<Rightarrow> (Inl e, s, calls)
              | None \<Rightarrow>
                  (case data r of
                     None \<Rightarrow> (Inl TypeError, s, calls)
                   | Some row \<Rightarrow>
                       (let created = mapRowToProfile row
                        in (Inr created, s\<lparr>profiles := profiles s @ [created]\<rparr>, calls)))))"

section \<open>\<open>src/stores/profileStore.ts\<close>: the auth store\<close>

record User =
  user_id :: string

record Session =
  session_user :: "User option"

record AuthState =
  isInitialized :: bool
  session :: "Session option"
  user :: "User option"
  account :: "Account option"

text \<open>
  The responses of \<open>auth.signOut()\<close> and \<open>auth.getSession()\<close>. \<open>logout\<close> reads
  nothing of the first; \<open>checkSession\<close> reads \<open>data.session\<close> of the second.
\<close>

record signOut_response =
  signOut_error :: "error option"

record getSession_response =
  gs_session :: "Session option"
  gs_error :: "error option"

definition logout ::
  "signOut_response awaited \<Rightarrow> AuthState \<Rightarrow> (error + unit) \<times> AuthState \<times> remote_call list" where
  "logout signOut s =
     (case signOut of
        Rejected e \<Rightarrow> (Inl e, s, [AuthSignOut])
      | Resolved r \<Rightarrow>
          (Inr (), s\<lparr>session := None, user := None, account := None\<rparr>, [AuthSignOut]))"

text \<open>
  The \<open>try\<close> block of \<open>checkSession\<close>. A state change made before a throw stays, so
  the block returns the state it reached also when it throws.
\<close>

definition checkSessionBody ::
  "getSession_response awaited \<Rightarrow> account_row response awaited \<Rightarrow> AuthState
     \<Rightarrow> (error + unit) \<times> AuthState \<times> remote_call list" where
  "checkSessionBody getSession accountSingle s =
     (case getSession of
        Rejected e \<Rightarrow> (Inl e, s, [AuthGetSession])
      | Resolved sess \<Rightarrow>
          (let user' = (case gs_session sess of None \<Rightarrow> None | Some ss \<Rightarrow> session_user ss);
               s1 = s\<lparr>session := gs_session sess, user := user'\<rparr>
           in case user' of
                None \<Rightarrow> (Inr (), s1\<lparr>account := None, isInitialized := True\<rparr>, [AuthGetSession])
              | Some u \<Rightarrow>
                  (let calls = [AuthGetSession, AccountSelect (user_id u)]
                   in case accountSingle of
                        Rejected e \<Rightarrow> (Inl e, s1, calls)
                      | Resolved r \<Rightarrow>
                          (case error r of
                             Some e \<Rightarrow> (Inl e, s1, calls)
                           | None \<Rightarrow>
                               (case data r of
                                  None \<Rightarrow> (Inl TypeError, s1, calls)
                                | Some row \<Rightarrow>
                                    (Inr (),
                                     s1\<lparr>account := Some (mapRowToAccount row),
                                        isInitialized := True\<rparr>,
                                     calls))))))"

text \<open>The \<open>catch\<close> of \<open>checkSession\<close> logs the error and sets \<open>isInitialized\<close>.\<close>

definition checkSession ::
  "getSession_response awaited \<Rightarrow> account_row response awaited \<Rightarrow> AuthState
     \<Rightarrow> (error + unit) \<times> AuthState \<times> remote_call list" where
  "checkSession getSession accountSingle s =
     (case checkSessionBody getSession accountSingle s of
        (Inl e, s', calls) \<Rightarrow> (Inr (), s'\<lparr>isInitialized := True\<rparr>, calls)
      | (Inr u, s', calls) \<Rightarrow> (Inr (), s', calls))"

text \<open>
  \<open>Partial<Account>\<close>, the argument of \<open>updateAccount\<close> (prefix \<open>p_\<close>): a field the
  caller does not mention is \<open>Undefined\<close>.
\<close>

record account_patch =
  p_id :: "string field"
  p_email :: "string field"
  p_pharmacyName :: "string field"
  p_pharmacyPhone :: "string field"
  p_subscriptionStatus :: "string field"
  p_createdAt :: "string field"
  p_updatedAt :: "string field"
  p_address1 :: "string field"
  p_city :: "string field"
  p_state :: "string field"
  p_zipcode :: "string field"

definition updatePayload :: "string \<Rightarrow> account_patch \<Rightarrow> account_update" where
  "updatePayload now patch =
     \<lparr> u_pharmacy_name = p_pharmacyName patch,
       u_pharmacy_phone = nullish (p_pharmacyPhone patch) Null,
       u_subscription_status = nullish (p_subscriptionStatus patch) Undefined,
       u_address1 = nullish (p_address1 patch) Null,
       u_city = nullish (p_city patch) Null,
       u_state = nullish (p_state patch) Null,
       u_zipcode = nullish (p_zipcode patch) Null,
       u_updated_at = Val now \<rparr>"

definition updateAccount ::
  "string \<Rightarrow> account_row response awaited \<Rightarrow> account_patch \<Rightarrow> AuthState
     \<Rightarrow> (error + Account option) \<times> AuthState \<times> remote_call list" where
  "updateAccount now upd patch s =
     (case user s of
        None \<Rightarrow> (Inr None, s, [])
      | Some u \<Rightarrow>
          (let calls = [AccountUpdate (user_id u) (updatePayload now patch)]
           in case upd of
                Rejected e \<Rightarrow> (Inl e, s, calls)
              | Resolved r \<Rightarrow>
                  (case error r of
                     Some e \<Rightarrow> (Inl e, s, calls)
                   | None \<Rightarrow>
                       (case data r of
                          None \<Rightarrow> (Inl TypeError, s, calls)
                        | Some row \<Rightarrow>
                            (Inr (Some (mapRowToAccount row)),
                             s\<lparr>account := Some (mapRowToAccount row)\<rparr>,
                             calls)))))"

text \<open>
  What the update request does to the row. The client sends the payload as JSON, which
  leaves out a key whose value is \<open>undefined\<close>; the remote store sets every column that
  is a key of the body, to \<open>null\<close> when the value is \<open>null\<close>, and keeps the others.
\<close>

definition setColumn :: "'a field \<Rightarrow> 'a field \<Rightarrow> 'a field" where
  "setColumn new old = (case new of Undefined \<Rightarrow> old | Null \<Rightarrow> Null | Val v \<Rightarrow> Val v)"

definition applyUpdate :: "account_update \<Rightarrow> account_row \<Rightarrow> account_row" where
  "applyUpdate u row =
     row\<lparr> r_pharmacy_name := setColumn (u_pharmacy_name u) (r_pharmacy_name row),
          r_pharmacy_phone := setColumn (u_pharmacy_phone u) (r_pharmacy_phone row),
          r_subscription_status := setColumn (u_subscription_status u) (r_subscription_status row),
          r_address1 := setColumn (u_address1 u) (r_address1 row),
          r_city := setColumn (u_city u) (r_city row),
          r_state := setColumn (u_state u) (r_state row),
          r_zipcode := setColumn (u_zipcode u) (r_zipcode row),
          r_updated_at := setColumn (u_updated_at u) (r_updated_at row) \<rparr>"

section \<open>Example inputs\<close>

text \<open>A row of \<open>accounts\<close> that has no subscription status and no optional column.\<close>

definition exampleRow :: account_row where
  "exampleRow =
     \<lparr> r_id = Val ''acc-1'', r_email = Val ''rx@example.com'',
       r_pharmacy_name = Val ''Main Street Pharmacy'', r_pharmacy_phone = Undefined,
       r_subscription_status = Null, r_created_at = Val ''2024-01-01T00:00:00Z'',
       r_updated_at = Undefined, r_address1 = Undefined, r_city = Undefined,
       r_state = Undefined, r_zipcode = Undefined \<rparr>"

text \<open>
  An empty cache, a resource without and with a catalog id, and answers of the remote
  store: every request succeeds; the delete is rejected; the catalog has no entry; the
  insert is answered with an error in the response.
\<close>

definition emptyCache :: ResourceBookmarkState where
  "emptyCache = \<lparr>bookmarkedResources = Map.empty, loading = False\<rparr>"

definition form1 :: StorageFileItem where
  "form1 = \<lparr>path = ''mtm/form1.pdf'', catalogId = None\<rparr>"

definition form1Known :: StorageFileItem where
  "form1Known = \<lparr>path = ''mtm/form1.pdf'', catalogId = Some ''C1''\<rparr>"

definition remoteOk :: toggle_remote where
  "remoteOk =
     \<lparr> catalog_single = Resolved \<lparr>data = Some \<lparr>ref_id = ''C1''\<rparr>, error = None\<rparr>,
       bookmark_delete = Resolved \<lparr>data = None, error = None\<rparr>,
       bookmark_insert = Resolved \<lparr>data = None, error = None\<rparr> \<rparr>"

definition remoteDeleteRejected :: toggle_remote where
  "remoteDeleteRejected = remoteOk\<lparr>bookmark_delete := Rejected (Error ''request rejected'')\<rparr>"

definition remoteNoEntry :: toggle_remote where
  "remoteNoEntry =
     remoteOk\<lparr>catalog_single :=
       Resolved \<lparr>data = None, error = Some (Error ''PGRST116'')\<rparr>\<rparr>"

definition remoteInsertError :: toggle_remote where
  "remoteInsertError =
     remoteOk\<lparr>bookmark_insert :=
       Resolved \<lparr>data = None,
                 error = Some (Error ''new row violates row-level security policy'')\<rparr>\<rparr>"

text \<open>A signed-in auth store, inputs of \<open>addProfile\<close> and \<open>updateAccount\<close>, and rows.\<close>

definition signedIn :: AuthState where
  "signedIn =
     \<lparr> isInitialized = True,
       session = Some \<lparr>session_user = Some \<lparr>user_id = ''acc-1''\<rparr>\<rparr>,
       user = Some \<lparr>user_id = ''acc-1''\<rparr>,
       account = Some (mapRowToAccount exampleRow) \<rparr>"

definition emptyInput :: profile_input where
  "emptyInput =
     \<lparr> n_accountId = Undefined, n_fullName = Undefined, n_role = Undefined,
       n_email = Undefined, n_phone = Undefined, n_isActive = Undefined \<rparr>"

definition createdRow :: profile_row where
  "createdRow =
     \<lparr> pr_id = Val ''prof-9'', pr_account_id = Null, pr_full_name = Null, pr_role = Null,
       pr_email = Null, pr_phone = Null, pr_is_active = Val True,
       pr_created_at = Val ''2025-01-01T00:00:00Z'', pr_updated_at = Null \<rparr>"

definition namePatch :: account_patch where
  "namePatch =
     \<lparr> p_id = Undefined, p_email = Undefined, p_pharmacyName = Val ''Elm Street Pharmacy'',
       p_pharmacyPhone = Undefined, p_subscriptionStatus = Undefined, p_createdAt = Undefined,
       p_updatedAt = Undefined, p_address1 = Undefined, p_city = Undefined,
       p_state = Undefined, p_zipcode = Undefined \<rparr>"

definition storedRow :: account_row where
  "storedRow =
     \<lparr> r_id = Val ''acc-1'', r_email = Val ''rx@example.com'',
       r_pharmacy_name = Val ''Main Street Pharmacy'', r_pharmacy_phone = Val ''555-0100'',
       r_subscription_status = Val ''active'', r_created_at = Val ''2024-01-01T00:00:00Z'',
       r_updated_at = Null, r_address1 = Val ''1 Main Street'', r_city = Val ''Springfield'',
       r_state = Val ''IL'', r_zipcode = Val ''62701'' \<rparr>"

definition slashRows :: "bookmark_row list" where
  "slashRows =
     [\<lparr>resource_id = ''C1'',
       storage_files_catalog = Some \<lparr>join_id = ''C1'', file_path = Some ''/mtm/form1.pdf''\<rparr>\<rparr>,
      \<lparr>resource_id = ''C2'', storage_files_catalog = None\<rparr>]"

section \<open>Properties\<close>

subsection \<open>Nullish coalescing\<close>

lemma nullish_defined: "d \<noteq> Undefined \<Longrightarrow> nullish x d \<noteq> Undefined"
  by (cases x) simp_all

lemma nullish_Val_not_Null: "nullish x (Val v) \<noteq> Null"
  by (cases x) simp_all

lemma nullish_inactive: "x = Undefined \<or> x = Null \<Longrightarrow> nullish x d = d"
  by (cases x) simp_all

lemma nullish_case: "nullish x d = (case x of Val v \<Rightarrow> Val v | _ \<Rightarrow> d)"
  by (cases x) simp_all

subsection \<open>Row mapping\<close>

text \<open>
  C10. \<open>mapRowToAccount\<close> yields an Account for every row. Identifier, email,
  pharmacy name and creation time are those of the row. The subscription status is the
  row's value when the row has one and \<open>'inactive'\<close> when the row's
  \<open>subscription_status\<close> is \<open>null\<close> or absent, so it is never \<open>undefined\<close> or
  \<open>null\<close>. Each of the optional fields pharmacyPhone, updatedAt, address1, city, state
  and zipcode is the row's value when the row has one and \<open>null\<close> when the column is
  \<open>null\<close> or absent, so it is never \<open>undefined\<close>.
\<close>

theorem mapRowToAccount_defaults:
  "a_id (mapRowToAccount row) = r_id row
   \<and> a_email (mapRowToAccount row) = r_email row
   \<and> a_pharmacyName (mapRowToAccount row) = r_pharmacy_name row
   \<and> a_createdAt (mapRowToAccount row) = r_created_at row
   \<and> a_subscriptionStatus (mapRowToAccount row)
       = (case r_subscription_status row of Val v \<Rightarrow> Val v | _ \<Rightarrow> Val ''inactive'')
   \<and> a_pharmacyPhone (mapRowToAccount row)
       = (case r_pharmacy_phone row of Val v \<Rightarrow> Val v | _ \<Rightarrow> Null)
   \<and> a_updatedAt (mapRowToAccount row)
       = (case r_updated_at row of Val v \<Rightarrow> Val v | _ \<Rightarrow> Null)
   \<and> a_address1 (mapRowToAccount row)
       = (case r_address1 row of Val v \<Rightarrow> Val v | _ \<Rightarrow> Null)
   \<and> a_city (mapRowToAccount row) = (case r_city row of Val v \<Rightarrow> Val v | _ \<Rightarrow> Null)
   \<and> a_state (mapRowToAccount row) = (case r_state row of Val v \<Rightarrow> Val v | _ \<Rightarrow> Null)
   \<and> a_zipcode (mapRowToAccount row)
       = (case r_zipcode row of Val v \<Rightarrow> Val v | _ \<Rightarrow> Null)
   \<and> (r_subscription_status row = Val status \<longrightarrow>
         a_subscriptionStatus (mapRowToAccount row) = Val status)
   \<and> (r_pharmacy_phone row = Val phone \<longrightarrow>
         a_pharmacyPhone (mapRowToAccount row) = Val phone)
   \<and> a_subscriptionStatus (mapRowToAccount row) \<noteq> Undefined
   \<and> a_subscriptionStatus (mapRowToAccount row) \<noteq> Null
   \<and> (r_subscription_status row \<in> {Undefined, Null} \<longrightarrow>
          a_subscriptionStatus (mapRowToAccount row) = Val ''inactive'')
   \<and> (r_pharmacy_phone row = Undefined \<longrightarrow> a_pharmacyPhone (mapRowToAccount row) = Null)
   \<and> (r_updated_at row = Undefined \<longrightarrow> a_updatedAt (mapRowToAccount row) = Null)
   \<and> (r_address1 row = Undefined \<longrightarrow> a_address1 (mapRowToAccount row) = Null)
   \<and> (r_city row = Undefined \<longrightarrow> a_city (mapRowToAccount row) = Null)
   \<and> (r_state row = Undefined \<longrightarrow> a_state (mapRowToAccount row) = Null)
   \<and> (r_zipcode row = Undefined \<longrightarrow> a_zipcode (mapRowToAccount row) = Null)
   \<and> a_pharmacyPhone (mapRowToAccount row) \<noteq> Undefined
   \<and> a_updatedAt (mapRowToAccount row) \<noteq> Undefined
   \<and> a_address1 (mapRowToAccount row) \<noteq> Undefined
   \<and> a_city (mapRowToAccount row) \<noteq> Undefined
   \<and> a_state (mapRowToAccount row) \<noteq> Undefined
   \<and> a_zipcode (mapRowToAccount row) \<noteq> Undefined"
proof -
  have kept:
    "a_id (mapRowToAccount row) = r_id row"
    "a_email (mapRowToAccount row) = r_email row"
    "a_pharmacyName (mapRowToAccount row) = r_pharmacy_name row"
    "a_createdAt (mapRowToAccount row) = r_created_at row"
    "a_subscriptionStatus (mapRowToAccount row)
       = (case r_subscription_status row of Val v \<Rightarrow> Val v | _ \<Rightarrow> Val ''inactive'')"
    "a_pharmacyPhone (mapRowToAccount row)
       = (case r_pharmacy_phone row of Val v \<Rightarrow> Val v | _ \<Rightarrow> Null)"
    "a_updatedAt (mapRowToAccount row)
       = (case r_updated_at row of Val v \<Rightarrow> Val v | _ \<Rightarrow> Null)"
    "a_address1 (mapRowToAccount row)
       = (case r_address1 row of Val v \<Rightarrow> Val v | _ \<Rightarrow> Null)"
    "a_city (mapRowToAccount row) = (case r_city row of Val v \<Rightarrow> Val v | _ \<Rightarrow> Null)"
    "a_state (mapRowToAccount row) = (case r_state row of Val v \<Rightarrow> Val v | _ \<Rightarrow> Null)"
    "a_zipcode (mapRowToAccount row)
       = (case r_zipcode row of Val v \<Rightarrow> Val v | _ \<Rightarrow> Null)"
    "r_subscription_status row = Val status \<longrightarrow>
       a_subscriptionStatus (mapRowToAccount row) = Val status"
    "r_pharmacy_phone row = Val phone \<longrightarrow>
       a_pharmacyPhone (mapRowToAccount row) = Val phone"
    by (simp_all add: mapRowToAccount_def nullish_case)
  have defaults:
    "a_subscriptionStatus (mapRowToAccount row) \<noteq> Undefined"
    "a_subscriptionStatus (mapRowToAccount row) \<noteq> Null"
    "r_subscription_status row \<in> {Undefined, Null} \<longrightarrow>
       a_subscriptionStatus (mapRowToAccount row) = Val ''inactive''"
    "r_pharmacy_phone row = Undefined \<longrightarrow> a_pharmacyPhone (mapRowToAccount row) = Null"
    "r_updated_at row = Undefined \<longrightarrow> a_updatedAt (mapRowToAccount row) = Null"
    "r_address1 row = Undefined \<longrightarrow> a_address1 (mapRowToAccount row) = Null"
    "r_city row = Undefined \<longrightarrow> a_city (mapRowToAccount row) = Null"
    "r_state row = Undefined \<longrightarrow> a_state (mapRowToAccount row) = Null"
    "r_zipcode row = Undefined \<longrightarrow> a_zipcode (mapRowToAccount row) = Null"
    "a_pharmacyPhone (mapRowToAccount row) \<noteq> Undefined"
    "a_updatedAt (mapRowToAccount row) \<noteq> Undefined"
    "a_address1 (mapRowToAccount row) \<noteq> Undefined"
    "a_city (mapRowToAccount row) \<noteq> Undefined"
    "a_state (mapRowToAccount row) \<noteq> Undefined"
    "a_zipcode (mapRowToAccount row) \<noteq> Undefined"
    by (simp_all add: mapRowToAccount_def nullish_defined nullish_Val_not_Null nullish_inactive)
  from kept defaults show ?thesis by (intro conjI)
qed

theorem mapRowToAccount_defaults_witness:
  "r_subscription_status exampleRow \<in> {Undefined, Null}
   \<and> r_pharmacy_phone exampleRow = Undefined \<and> r_updated_at exampleRow = Undefined
   \<and> r_address1 exampleRow = Undefined \<and> r_city exampleRow = Undefined
   \<and> r_state exampleRow = Undefined \<and> r_zipcode exampleRow = Undefined
   \<and> a_subscriptionStatus (mapRowToAccount exampleRow) = Val ''inactive''
   \<and> a_pharmacyPhone (mapRowToAccount exampleRow) = Null
   \<and> a_updatedAt (mapRowToAccount exampleRow) = Null
   \<and> a_address1 (mapRowToAccount exampleRow) = Null
   \<and> a_city (mapRowToAccount exampleRow) = Null
   \<and> a_state (mapRowToAccount exampleRow) = Null
   \<and> a_zipcode (mapRowToAccount exampleRow) = Null
   \<and> r_subscription_status storedRow = Val ''active''
   \<and> r_pharmacy_phone storedRow = Val ''555-0100''
   \<and> a_subscriptionStatus (mapRowToAccount storedRow) = Val ''active''
   \<and> a_pharmacyPhone (mapRowToAccount storedRow) = Val ''555-0100''
   \<and> a_id (mapRowToAccount storedRow) = Val ''acc-1''
   \<and> a_city (mapRowToAccount storedRow) = Val ''Springfield''"
  using mapRowToAccount_defaults [of exampleRow "''active''" "''555-0100''"]
    mapRowToAccount_defaults [of storedRow "''active''" "''555-0100''"]
  by (simp add: exampleRow_def storedRow_def)

subsection \<open>Training progress\<close>

text \<open>
  C7 as stated asks that the stored percentage lies between 0 and 100 for every input.
  \<open>Math.max\<close> and \<open>Math.min\<close> pass \<open>NaN\<close> on, so for \<open>NaN\<close> the update carries
  \<open>NaN\<close> (which the JSON body writes as \<open>null\<close>).
\<close>

theorem updateTrainingProgress_NaN_counterexample:
  "snd (updateTrainingProgress ''2025-01-01T00:00:00.000Z''
          (Resolved \<lparr>data = None, error = None\<rparr>) ''p1'' ''training_mtm'' NaN None)
     = [TrainingUpdate ''p1'' ''training_mtm''
          \<lparr>completion_percentage = NaN, is_completed = False, completed_at = None\<rparr>]
   \<and> \<not> inRange (completion_percentage (updateData ''2025-01-01T00:00:00.000Z'' NaN None))"
  by (simp add: updateTrainingProgress_def updateData_def default_false_def)

text \<open>
  C7, amended. \<open>updateTrainingProgress\<close> sends one update whose
  \<open>completion_percentage\<close> is \<open>Math.min(100, Math.max(0, percentage))\<close>. For every
  percentage other than \<open>NaN\<close> this lies between 0 and 100: a finite value is clamped
  (150 is stored as 100, -10 as 0, a value in range as it is), \<open>Infinity\<close> is stored
  as 100 and \<open>-Infinity\<close> as 0. \<open>NaN\<close> is passed on as \<open>NaN\<close>. When \<open>isCompleted\<close>
  is set, the update also carries the completion timestamp \<open>completed_at\<close>.
\<close>

theorem updateTrainingProgress_clamps:
  "snd (updateTrainingProgress now upd profileId trainingModuleId pct isCompleted)
     = [TrainingUpdate profileId trainingModuleId (updateData now pct isCompleted)]
   \<and> (pct \<noteq> NaN \<longrightarrow> inRange (completion_percentage (updateData now pct isCompleted)))
   \<and> completion_percentage (updateData now (Num x) isCompleted)
       = Num (if x < 0 then 0 else if 100 < x then 100 else x)
   \<and> completion_percentage (updateData now (Num 150) isCompleted) = Num 100
   \<and> completion_percentage (updateData now (Num (- 10)) isCompleted) = Num 0
   \<and> completion_percentage (updateData now PosInfinity isCompleted) = Num 100
   \<and> completion_percentage (updateData now NegInfinity isCompleted) = Num 0
   \<and> completion_percentage (updateData now NaN isCompleted) = NaN
   \<and> completed_at (updateData now pct (Some True)) = Some now
   \<and> is_completed (updateData now pct (Some True))
   \<and> completed_at (updateData now pct (Some False)) = None
   \<and> completed_at (updateData now pct None) = None"
proof -
  have sent: "snd (updateTrainingProgress now upd profileId trainingModuleId pct isCompleted)
     = [TrainingUpdate profileId trainingModuleId (updateData now pct isCompleted)]"
    by (cases upd) (auto simp: updateTrainingProgress_def Let_def split: option.splits)
  have range: "pct \<noteq> NaN \<longrightarrow> inRange (completion_percentage (updateData now pct isCompleted))"
    by (cases pct) (auto simp: updateData_def Let_def)
  have clamp: "completion_percentage (updateData now (Num x) isCompleted)
       = Num (if x < 0 then 0 else if 100 < x then 100 else x)"
    by (auto simp: updateData_def Let_def)
  have rest: "completion_percentage (updateData now (Num 150) isCompleted) = Num 100"
    "completion_percentage (updateData now (Num (- 10)) isCompleted) = Num 0"
    "completion_percentage (updateData now PosInfinity isCompleted) = Num 100"
    "completion_percentage (updateData now NegInfinity isCompleted) = Num 0"
    "completion_percentage (updateData now NaN isCompleted) = NaN"
    "completed_at (updateData now pct (Some True)) = Some now"
    "is_completed (updateData now pct (Some True))"
    "completed_at (updateData now pct (Some False)) = None"
    "completed_at (updateData now pct None) = None"
    by (simp_all add: updateData_def default_false_def Let_def)
  from sent range clamp rest show ?thesis by blast
qed

theorem updateTrainingProgress_clamps_witness:
  "Num 150 \<noteq> NaN
   \<and> inRange (completion_percentage
        (updateData ''2025-01-01T00:00:00.000Z'' (Num 150) (Some True)))
   \<and> updateTrainingProgress ''2025-01-01T00:00:00.000Z'' (Resolved \<lparr>data = None, error = None\<rparr>)
       ''p1'' ''training_mtm'' (Num 150) (Some True)
     = (Inr (), [TrainingUpdate ''p1'' ''training_mtm''
                   \<lparr>completion_percentage = Num 100, is_completed = True,
                    completed_at = Some ''2025-01-01T00:00:00.000Z''\<rparr>])
   \<and> snd (updateTrainingProgress ''2025-01-01T00:00:00.000Z'' (Rejected (Error ''offline''))
       ''p1'' ''training_mtm'' (Num (- 10)) None)
     = [TrainingUpdate ''p1'' ''training_mtm''
          \<lparr>completion_percentage = Num 0, is_completed = False, completed_at = None\<rparr>]"
  using updateTrainingProgress_clamps [of "''2025-01-01T00:00:00.000Z''"
      "Resolved \<lparr>data = None, error = None\<rparr>" "''p1''" "''training_mtm''" "Num 150" "Some True" 150]
    updateTrainingProgress_clamps [of "''2025-01-01T00:00:00.000Z''"
      "Rejected (Error ''offline'')" "''p1''" "''training_mtm''" "Num (- 10)" None "- 10"]
  by (simp add: updateTrainingProgress_def updateData_def default_false_def)

subsection \<open>Bookmarks: toggling\<close>

text \<open>
  A call that throws leaves the cache as it was; a call that returns flips the
  membership of the path, provided the cache does not map the path to the empty
  catalog id (the case in which \<open>toggleBookmark\<close> logs and returns at once); and no
  call creates such an entry.
\<close>

lemma toggleBookmark_throws_unchanged:
  "toggleBookmark remote pid r s = (Inl e, s', calls) \<Longrightarrow> s' = s"
  by (auto simp: toggleBookmark_def toggleBody_def Let_def
           split: prod.splits sum.splits option.splits if_splits awaited.splits)

lemma toggleBookmark_returns_flips:
  assumes "bookmarkedResources s (path r) \<noteq> Some []"
    and "toggleBookmark remote pid r s = (Inr u, s', calls)"
  shows "isBookmarked s' (path r) = (\<not> isBookmarked s (path r))"
  using assms
  by (auto simp: toggleBookmark_def toggleBody_def Let_def isBookmarked_def
           split: prod.splits sum.splits option.splits if_splits awaited.splits)

lemma toggleBookmark_keeps_truthy:
  assumes "bookmarkedResources s (path r) \<noteq> Some []"
    and "toggleBookmark remote pid r s = (res, s', calls)"
  shows "bookmarkedResources s' (path r) \<noteq> Some []"
  using assms
  by (auto simp: toggleBookmark_def toggleBody_def Let_def resolveCatalogId_def truthy_def
           split: prod.splits sum.splits option.splits if_splits awaited.splits)

lemma toggleMany_parity:
  assumes "bookmarkedResources s (path r) \<noteq> Some []"
    and "toggleMany remotes pid r s = (s', n)"
  shows "isBookmarked s' (path r) = (isBookmarked s (path r) \<noteq> odd n)"
  using assms
proof (induction remotes arbitrary: s s' n)
  case Nil
  then show ?case by simp
next
  case (Cons remote rest)
  obtain res s1 calls where step: "toggleBookmark remote pid r s = (res, s1, calls)"
    by (cases "toggleBookmark remote pid r s") auto
  have inv: "bookmarkedResources s1 (path r) \<noteq> Some []"
    using toggleBookmark_keeps_truthy [OF Cons.prems(1) step] .
  show ?case
  proof (cases res)
    case (Inl e)
    with step Cons.prems(2) have rest: "toggleMany rest pid r s1 = (s', n)" by simp
    have "s1 = s" using toggleBookmark_throws_unchanged step Inl by blast
    with Cons.IH [OF inv rest] show ?thesis by simp
  next
    case (Inr u)
    obtain s2 m where rest: "toggleMany rest pid r s1 = (s2, m)"
      by (cases "toggleMany rest pid r s1") auto
    with step Inr Cons.prems(2) have eq: "s' = s2" "n = Suc m" by simp_all
    have flip: "isBookmarked s1 (path r) = (\<not> isBookmarked s (path r))"
      using toggleBookmark_returns_flips [OF Cons.prems(1)] step Inr by blast
    from Cons.IH [OF inv rest] flip eq show ?thesis by auto
  qed
qed

text \<open>
  C1. Start from a cache in which the resource's path is not bookmarked and call
  \<open>toggleBookmark(profileId, resource)\<close> any number of times, with any answers of the
  remote store. If \<open>n\<close> of the calls returned without throwing, then afterwards
  \<open>isBookmarked(resource.path)\<close> is true when \<open>n\<close> is odd and false when it is even.
\<close>

theorem toggleBookmark_parity:
  assumes "\<not> isBookmarked s (path resource)"
    and "toggleMany remotes profileId resource s = (s', n)"
  shows "isBookmarked s' (path resource) = odd n"
proof -
  from assms(1) have "bookmarkedResources s (path resource) \<noteq> Some []"
    by (simp add: isBookmarked_def)
  from toggleMany_parity [OF this assms(2)] assms(1) show ?thesis by simp
qed

theorem toggleBookmark_parity_witness:
  "\<not> isBookmarked emptyCache (path form1)
   \<and> toggleMany [remoteOk, remoteDeleteRejected, remoteOk, remoteNoEntry, remoteOk]
         ''p1'' form1 emptyCache
       = (fst (toggleMany [remoteOk, remoteDeleteRejected, remoteOk, remoteNoEntry, remoteOk]
                 ''p1'' form1 emptyCache), 3)
   \<and> isBookmarked
         (fst (toggleMany [remoteOk, remoteDeleteRejected, remoteOk, remoteNoEntry, remoteOk]
                 ''p1'' form1 emptyCache)) (path form1)"
proof -
  let ?rs = "[remoteOk, remoteDeleteRejected, remoteOk, remoteNoEntry, remoteOk]"
  have n: "snd (toggleMany ?rs ''p1'' form1 emptyCache) = 3"
    by (simp add: toggleBookmark_def toggleBody_def resolveCatalogId_def truthy_def
        emptyCache_def form1_def remoteOk_def remoteDeleteRejected_def remoteNoEntry_def)
  have start: "\<not> isBookmarked emptyCache (path form1)"
    by (simp add: isBookmarked_def emptyCache_def)
  have run: "toggleMany ?rs ''p1'' form1 emptyCache
               = (fst (toggleMany ?rs ''p1'' form1 emptyCache), 3)"
    using n by (simp add: prod_eq_iff)
  from toggleBookmark_parity [OF start run] start run show ?thesis by simp
qed

text \<open>
  C2 asks that a failed insert or delete leaves the cache as it was and is thrown to the
  caller. The remote store client reports a failed request in the \<open>error\<close> field of
  the response, which \<open>toggleBookmark\<close> does not read: here the insert is refused by
  the remote store, and the call returns normally with the path added to the cache.
\<close>

theorem toggleBookmark_insert_error_ignored:
  "toggleBookmark remoteInsertError ''p1'' form1Known emptyCache
     = (Inr (),
        \<lparr>bookmarkedResources = [''mtm/form1.pdf'' \<mapsto> ''C1''], loading = False\<rparr>,
        [BookmarkInsert ''p1'' ''file'' ''C1''])"
  by (simp add: toggleBookmark_def toggleBody_def resolveCatalogId_def truthy_def
      emptyCache_def form1Known_def remoteOk_def remoteInsertError_def)

lemma resolveCatalogId_sources:
  "resolveCatalogId remote resource w = (Inr c, calls) \<Longrightarrow>
     c = catalogId resource
     \<or> (\<exists>r. catalog_single remote = Resolved r \<and> c = map_option ref_id (data r))"
  by (auto simp: resolveCatalogId_def split: if_splits awaited.splits)

text \<open>
  C6. If the resource is not bookmarked, carries no catalog id, and the catalog lookup
  by path returns no entry, then \<open>toggleBookmark\<close> throws
  \<open>Error('Resource not found in catalog')\<close>; the lookup is the only request it
  sent, so no bookmark row was inserted, and the cache is unchanged. And whenever
  \<open>toggleBookmark\<close> does insert a bookmark row, its catalog id is the one the resource
  carries or the one the catalog lookup returned.
\<close>

theorem toggleBookmark_not_in_catalog:
  "(\<not> isBookmarked s (path resource) \<and> \<not> truthy (catalogId resource)
      \<and> catalog_single remote = Resolved r \<and> \<not> truthy (map_option ref_id (data r))
    \<longrightarrow> toggleBookmark remote profileId resource s
          = (Inl (Error ''Resource not found in catalog''), s, [CatalogSelect (path resource)]))
   \<and> (BookmarkInsert p t c \<in> set (snd (snd (toggleBookmark remote profileId resource s)))
    \<longrightarrow> catalogId resource = Some c
        \<or> (\<exists>r'. catalog_single remote = Resolved r' \<and> map_option ref_id (data r') = Some c))"
proof (intro conjI impI)
  assume "\<not> isBookmarked s (path resource) \<and> \<not> truthy (catalogId resource)
      \<and> catalog_single remote = Resolved r \<and> \<not> truthy (map_option ref_id (data r))"
  then show "toggleBookmark remote profileId resource s
          = (Inl (Error ''Resource not found in catalog''), s, [CatalogSelect (path resource)])"
    by (simp add: toggleBookmark_def resolveCatalogId_def isBookmarked_def)
next
  assume ins: "BookmarkInsert p t c \<in> set (snd (snd (toggleBookmark remote profileId resource s)))"
  obtain res calls where rc:
    "resolveCatalogId remote resource (bookmarkedResources s (path resource) \<noteq> None) = (res, calls)"
    by (cases "resolveCatalogId remote resource (bookmarkedResources s (path resource) \<noteq> None)") auto
  have nocall: "BookmarkInsert p t c \<notin> set calls"
    using rc by (auto simp: resolveCatalogId_def split: if_splits awaited.splits)
  show "catalogId resource = Some c
        \<or> (\<exists>r'. catalog_single remote = Resolved r' \<and> map_option ref_id (data r') = Some c)"
  proof (cases res)
    case (Inl e)
    with rc ins nocall show ?thesis by (simp add: toggleBookmark_def)
  next
    case (Inr c')
    with rc ins nocall have "c' = Some c"
      by (auto simp: toggleBookmark_def toggleBody_def
               split: prod.splits option.splits if_splits awaited.splits)
    with resolveCatalogId_sources rc Inr show ?thesis by metis
  qed
qed

theorem toggleBookmark_not_in_catalog_witness:
  "\<not> isBookmarked emptyCache (path form1)
   \<and> \<not> truthy (catalogId form1)
   \<and> catalog_single remoteNoEntry = Resolved \<lparr>data = None, error = Some (Error ''PGRST116'')\<rparr>
   \<and> \<not> truthy (map_option ref_id
         (data \<lparr>data = None :: catalog_ref option, error = Some (Error ''PGRST116'')\<rparr>))
   \<and> toggleBookmark remoteNoEntry ''p1'' form1 emptyCache
       = (Inl (Error ''Resource not found in catalog''), emptyCache,
          [CatalogSelect ''mtm/form1.pdf''])
   \<and> BookmarkInsert ''p1'' ''file'' ''C1''
       \<in> set (snd (snd (toggleBookmark remoteOk ''p1'' form1 emptyCache)))
   \<and> catalog_single remoteOk = Resolved \<lparr>data = Some \<lparr>ref_id = ''C1''\<rparr>, error = None\<rparr>"
  using toggleBookmark_not_in_catalog [of emptyCache form1 remoteNoEntry
      "\<lparr>data = None, error = Some (Error ''PGRST116'')\<rparr>" "''p1''" "''p1''" "''file''" "''C1''"]
    toggleBookmark_not_in_catalog [of emptyCache form1 remoteOk
      "\<lparr>data = None, error = Some (Error ''PGRST116'')\<rparr>" "''p1''" "''p1''" "''file''" "''C1''"]
  by (simp add: toggleBookmark_def toggleBody_def resolveCatalogId_def truthy_def
      isBookmarked_def emptyCache_def form1_def remoteOk_def remoteNoEntry_def)

subsection \<open>Bookmarks: loading\<close>

text \<open>
  The map the loop builds has a key exactly for the normalised path of every row whose
  catalog entry is present with a non-empty \<open>file_path\<close>; a row without catalog entry
  changes nothing.
\<close>

lemma addRow_lookup:
  "addRow m row q \<noteq> None \<longleftrightarrow>
     m q \<noteq> None \<or>
     (\<exists>j p. storage_files_catalog row = Some j \<and> file_path j = Some p \<and> p \<noteq> []
            \<and> q = normalizePath p)"
  by (auto simp: addRow_def split: option.splits)

lemma foldl_addRow_lookup:
  "foldl addRow m rows q \<noteq> None \<longleftrightarrow>
     m q \<noteq> None \<or>
     (\<exists>row \<in> set rows. \<exists>j p. storage_files_catalog row = Some j \<and> file_path j = Some p
            \<and> p \<noteq> [] \<and> q = normalizePath p)"
proof (induction rows arbitrary: m)
  case Nil
  show ?case by simp
next
  case (Cons row rows)
  have "foldl addRow m (row # rows) q \<noteq> None \<longleftrightarrow> foldl addRow (addRow m row) rows q \<noteq> None"
    by simp
  also have "\<dots> \<longleftrightarrow> addRow m row q \<noteq> None \<or>
     (\<exists>row' \<in> set rows. \<exists>j p. storage_files_catalog row' = Some j \<and> file_path j = Some p
            \<and> p \<noteq> [] \<and> q = normalizePath p)"
    by (rule Cons.IH)
  finally show ?case
    unfolding addRow_lookup by auto
qed

lemma addRow_missing_join: "storage_files_catalog row = None \<Longrightarrow> addRow m row = m"
  by (simp add: addRow_def)

lemma foldl_addRow_skips:
  "foldl addRow m (filter (\<lambda>row. storage_files_catalog row \<noteq> None) rows) = foldl addRow m rows"
  by (induction rows arbitrary: m) (auto simp: addRow_missing_join)

text \<open>
  C9 as stated asks that \<open>isBookmarked\<close> holds for the \<open>file_path\<close> of every
  returned row with a catalog entry. The cache is keyed by the normalised path: a row
  whose \<open>file_path\<close> begins with a slash is found under the path without it, and not
  under its \<open>file_path\<close>.
\<close>

theorem loadBookmarks_leading_slash_counterexample:
  "fst (loadBookmarks (Resolved \<lparr>data = Some slashRows, error = None\<rparr>) ''p1'' emptyCache)
     = Inr ()
   \<and> \<not> isBookmarked
         (fst (snd (loadBookmarks (Resolved \<lparr>data = Some slashRows, error = None\<rparr>)
                      ''p1'' emptyCache)))
         ''/mtm/form1.pdf''
   \<and> isBookmarked
         (fst (snd (loadBookmarks (Resolved \<lparr>data = Some slashRows, error = None\<rparr>)
                      ''p1'' emptyCache)))
         ''mtm/form1.pdf''"
  by (simp add: loadBookmarks_def buildResources_def addRow_def normalizePath_def isBookmarked_def
        slashRows_def emptyCache_def)

text \<open>
  C9, amended. After \<open>loadBookmarks\<close> got an answer without error, the cache is the
  map built from the returned rows, whatever it was before: \<open>isBookmarked(q)\<close> holds
  exactly when \<open>q\<close> is the \<open>file_path\<close>, without leading slashes, of a returned row
  whose catalog entry is present and has a non-empty \<open>file_path\<close>. Rows whose catalog
  entry is missing are skipped, and the load does not fail.
\<close>

theorem loadBookmarks_roundtrip:
  assumes "sel = Resolved r"
    and "error r = None"
    and "rows = (case data r of None \<Rightarrow> [] | Some found \<Rightarrow> found)"
  shows "loadBookmarks sel profileId s
           = (Inr (), \<lparr>bookmarkedResources = buildResources rows, loading = False\<rparr>,
              [BookmarkSelect profileId ''file''])
         \<and> (\<forall>q. isBookmarked (fst (snd (loadBookmarks sel profileId s))) q \<longleftrightarrow>
               (\<exists>row \<in> set rows. \<exists>j p. storage_files_catalog row = Some j
                   \<and> file_path j = Some p \<and> p \<noteq> [] \<and> q = normalizePath p))
         \<and> buildResources (filter (\<lambda>row. storage_files_catalog row \<noteq> None) rows)
             = buildResources rows"
proof -
  have run: "loadBookmarks sel profileId s
           = (Inr (), \<lparr>bookmarkedResources = buildResources rows, loading = False\<rparr>,
              [BookmarkSelect profileId ''file''])"
    using assms by (simp add: loadBookmarks_def Let_def)
  have member: "isBookmarked (fst (snd (loadBookmarks sel profileId s))) q \<longleftrightarrow>
               (\<exists>row \<in> set rows. \<exists>j p. storage_files_catalog row = Some j
                   \<and> file_path j = Some p \<and> p \<noteq> [] \<and> q = normalizePath p)" for q
    unfolding run using foldl_addRow_lookup [of Map.empty rows q]
    by (simp add: isBookmarked_def buildResources_def)
  have skip: "buildResources (filter (\<lambda>row. storage_files_catalog row \<noteq> None) rows)
             = buildResources rows"
    unfolding buildResources_def by (rule foldl_addRow_skips)
  from run member skip show ?thesis by blast
qed

theorem loadBookmarks_roundtrip_witness:
  "error \<lparr>data = Some slashRows, error = None\<rparr> = None
   \<and> loadBookmarks (Resolved \<lparr>data = Some slashRows, error = None\<rparr>) ''p1''
       (emptyCache\<lparr>bookmarkedResources := [''old/file.pdf'' \<mapsto> ''C7'']\<rparr>)
     = (Inr (), \<lparr>bookmarkedResources = buildResources slashRows, loading = False\<rparr>,
        [BookmarkSelect ''p1'' ''file''])
   \<and> isBookmarked (fst (snd (loadBookmarks (Resolved \<lparr>data = Some slashRows, error = None\<rparr>)
         ''p1'' (emptyCache\<lparr>bookmarkedResources := [''old/file.pdf'' \<mapsto> ''C7'']\<rparr>))))
       ''mtm/form1.pdf''
   \<and> \<not> isBookmarked (fst (snd (loadBookmarks (Resolved \<lparr>data = Some slashRows, error = None\<rparr>)
         ''p1'' (emptyCache\<lparr>bookmarkedResources := [''old/file.pdf'' \<mapsto> ''C7'']\<rparr>))))
       ''old/file.pdf''"
proof -
  let ?r = "\<lparr>data = Some slashRows, error = None\<rparr>"
  let ?s = "emptyCache\<lparr>bookmarkedResources := [''old/file.pdf'' \<mapsto> ''C7'']\<rparr>"
  have h2: "error ?r = None" by simp
  have h3: "slashRows = (case data ?r of None \<Rightarrow> [] | Some found \<Rightarrow> found)" by simp
  note loaded = loadBookmarks_roundtrip [of "Resolved ?r" ?r slashRows "''p1''" ?s, OF refl h2 h3]
  have in1: "\<exists>row \<in> set slashRows. \<exists>j p. storage_files_catalog row = Some j
        \<and> file_path j = Some p \<and> p \<noteq> [] \<and> ''mtm/form1.pdf'' = normalizePath p"
    by (simp add: slashRows_def normalizePath_def)
  have out1: "\<not> (\<exists>row \<in> set slashRows. \<exists>j p. storage_files_catalog row = Some j
        \<and> file_path j = Some p \<and> p \<noteq> [] \<and> ''old/file.pdf'' = normalizePath p)"
    by (simp add: slashRows_def normalizePath_def)
  from loaded in1 out1 h2 show ?thesis by blast
qed

subsection \<open>Session\<close>

text \<open>
  C3. \<open>checkSession\<close> returns without throwing and leaves \<open>isInitialized\<close> true,
  whatever the session read and the account fetch answer: a rejected request, an error
  in the response, a missing row, or success.
\<close>

theorem checkSession_initialized:
  "fst (checkSession getSession accountSingle s) = Inr ()
   \<and> isInitialized (fst (snd (checkSession getSession accountSingle s)))"
  by (simp add: checkSession_def checkSessionBody_def Let_def
           split: awaited.split option.split)

text \<open>
  C4. The auth client answers a sign-out with a response \<open>{ error }\<close>; a sign-out
  that failed has the error in it. \<open>logout\<close> does not read the response: for every
  response, with or without an error, \<open>logout\<close> returns without throwing and sets
  session, user and account to \<open>null\<close>.
\<close>

theorem logout_clears_state:
  "fst (logout (Resolved r) s) = Inr ()
   \<and> session (fst (snd (logout (Resolved r) s))) = None
   \<and> user (fst (snd (logout (Resolved r) s))) = None
   \<and> account (fst (snd (logout (Resolved r) s))) = None
   \<and> isInitialized (fst (snd (logout (Resolved r) s))) = isInitialized s
   \<and> snd (snd (logout (Resolved r) s)) = [AuthSignOut]
   \<and> logout (Resolved \<lparr>signOut_error = Some e\<rparr>) s
       = (Inr (), s\<lparr>session := None, user := None, account := None\<rparr>, [AuthSignOut])
   \<and> logout (Resolved \<lparr>signOut_error = None\<rparr>) s
       = (Inr (), s\<lparr>session := None, user := None, account := None\<rparr>, [AuthSignOut])"
  by (simp add: logout_def)

subsection \<open>Account update\<close>

lemma setColumn_simps [simp]:
  "setColumn Undefined old = old" "setColumn Null old = Null" "setColumn (Val v) old = Val v"
  by (simp_all add: setColumn_def)

text \<open>
  C8 as stated asks that \<open>updateAccount\<close> writes only the fields the patch provides.
  A patch that provides only the pharmacy name sends \<open>null\<close> for phone, address, city,
  state and zipcode, and a new \<open>updated_at\<close>; the stored phone number is lost.
\<close>

theorem updateAccount_clears_unmentioned_counterexample:
  "p_pharmacyPhone namePatch = Undefined
   \<and> snd (snd (updateAccount ''2025-06-01T12:00:00.000Z''
                  (Resolved \<lparr>data = Some storedRow, error = None\<rparr>) namePatch signedIn))
       = [AccountUpdate ''acc-1''
            \<lparr> u_pharmacy_name = Val ''Elm Street Pharmacy'', u_pharmacy_phone = Null,
              u_subscription_status = Undefined, u_address1 = Null, u_city = Null,
              u_state = Null, u_zipcode = Null,
              u_updated_at = Val ''2025-06-01T12:00:00.000Z'' \<rparr>]
   \<and> r_pharmacy_phone storedRow = Val ''555-0100''
   \<and> r_pharmacy_phone
         (applyUpdate (updatePayload ''2025-06-01T12:00:00.000Z'' namePatch) storedRow) = Null"
  by (simp add: updateAccount_def updatePayload_def applyUpdate_def namePatch_def
        storedRow_def signedIn_def)

text \<open>
  C8, amended. Without a user, \<open>updateAccount\<close> returns \<open>null\<close>, sends nothing and
  changes nothing. With a user it sends one update of the user's row. The payload sets
  \<open>pharmacy_name\<close> as the patch gives it and \<open>subscription_status\<close> only when the
  patch gives a value; it always sets \<open>pharmacy_phone\<close>, \<open>address1\<close>, \<open>city\<close>,
  \<open>state\<close> and \<open>zipcode\<close>, to the patch's value or to \<open>null\<close>, and \<open>updated_at\<close> to
  the current time. The columns \<open>id\<close>, \<open>email\<close> and \<open>created_at\<close> are never
  written, \<open>pharmacy_name\<close> is kept when the patch does not mention it, and
  \<open>subscription_status\<close> is kept when the patch gives none. On success the function
  stores and returns the Account mapped from the returned row.
\<close>

theorem updateAccount_writes:
  "(user s = None \<longrightarrow> updateAccount now upd patch s = (Inr None, s, []))
   \<and> (user s = Some u \<longrightarrow>
         snd (snd (updateAccount now upd patch s))
           = [AccountUpdate (user_id u) (updatePayload now patch)]
         \<and> updateAccount now (Resolved \<lparr>data = Some row, error = None\<rparr>) patch s
           = (Inr (Some (mapRowToAccount row)), s\<lparr>account := Some (mapRowToAccount row)\<rparr>,
              [AccountUpdate (user_id u) (updatePayload now patch)]))
   \<and> u_pharmacy_name (updatePayload now patch) = p_pharmacyName patch
   \<and> u_subscription_status (updatePayload now patch)
       = (case p_subscriptionStatus patch of Val v \<Rightarrow> Val v | _ \<Rightarrow> Undefined)
   \<and> u_pharmacy_phone (updatePayload now patch)
       = (case p_pharmacyPhone patch of Val v \<Rightarrow> Val v | _ \<Rightarrow> Null)
   \<and> u_address1 (updatePayload now patch)
       = (case p_address1 patch of Val v \<Rightarrow> Val v | _ \<Rightarrow> Null)
   \<and> u_city (updatePayload now patch) = (case p_city patch of Val v \<Rightarrow> Val v | _ \<Rightarrow> Null)
   \<and> u_state (updatePayload now patch) = (case p_state patch of Val v \<Rightarrow> Val v | _ \<Rightarrow> Null)
   \<and> u_zipcode (updatePayload now patch)
       = (case p_zipcode patch of Val v \<Rightarrow> Val v | _ \<Rightarrow> Null)
   \<and> u_updated_at (updatePayload now patch) = Val now
   \<and> r_id (applyUpdate (updatePayload now patch) old) = r_id old
   \<and> r_email (applyUpdate (updatePayload now patch) old) = r_email old
   \<and> r_created_at (applyUpdate (updatePayload now patch) old) = r_created_at old
   \<and> (p_pharmacyName patch = Undefined \<longrightarrow>
         r_pharmacy_name (applyUpdate (updatePayload now patch) old) = r_pharmacy_name old)
   \<and> (p_subscriptionStatus patch \<in> {Undefined, Null} \<longrightarrow>
         r_subscription_status (applyUpdate (updatePayload now patch) old)
           = r_subscription_status old)"
  by (cases upd)
     (auto simp: updateAccount_def updatePayload_def applyUpdate_def Let_def
           split: option.splits field.splits)

theorem updateAccount_writes_witness:
  "user signedIn = Some \<lparr>user_id = ''acc-1''\<rparr>
   \<and> p_pharmacyName (namePatch\<lparr>p_pharmacyName := Undefined, p_city := Val ''Shelbyville''\<rparr>)
       = Undefined
   \<and> p_subscriptionStatus (namePatch\<lparr>p_pharmacyName := Undefined, p_city := Val ''Shelbyville''\<rparr>)
       \<in> {Undefined, Null}
   \<and> updateAccount ''2025-06-01T12:00:00.000Z''
         (Resolved \<lparr>data = Some storedRow, error = None\<rparr>)
         (namePatch\<lparr>p_pharmacyName := Undefined, p_city := Val ''Shelbyville''\<rparr>) signedIn
       = (Inr (Some (mapRowToAccount storedRow)),
          signedIn\<lparr>account := Some (mapRowToAccount storedRow)\<rparr>,
          [AccountUpdate ''acc-1''
            \<lparr> u_pharmacy_name = Undefined, u_pharmacy_phone = Null,
              u_subscription_status = Undefined, u_address1 = Null,
              u_city = Val ''Shelbyville'', u_state = Null, u_zipcode = Null,
              u_updated_at = Val ''2025-06-01T12:00:00.000Z'' \<rparr>])
   \<and> r_pharmacy_name (applyUpdate (updatePayload ''2025-06-01T12:00:00.000Z''
         (namePatch\<lparr>p_pharmacyName := Undefined, p_city := Val ''Shelbyville''\<rparr>)) storedRow)
       = Val ''Main Street Pharmacy''
   \<and> r_subscription_status (applyUpdate (updatePayload ''2025-06-01T12:00:00.000Z''
         (namePatch\<lparr>p_pharmacyName := Undefined, p_city := Val ''Shelbyville''\<rparr>)) storedRow)
       = Val ''active''
   \<and> updateAccount ''2025-06-01T12:00:00.000Z''
         (Resolved \<lparr>data = Some storedRow, error = None\<rparr>) namePatch (signedIn\<lparr>user := None\<rparr>)
       = (Inr None, signedIn\<lparr>user := None\<rparr>, [])"
  using updateAccount_writes [of signedIn "''2025-06-01T12:00:00.000Z''"
      "Resolved \<lparr>data = Some storedRow, error = None\<rparr>"
      "namePatch\<lparr>p_pharmacyName := Undefined, p_city := Val ''Shelbyville''\<rparr>"
      "\<lparr>user_id = ''acc-1''\<rparr>" storedRow storedRow]
    updateAccount_writes [of "signedIn\<lparr>user := None\<rparr>" "''2025-06-01T12:00:00.000Z''"
      "Resolved \<lparr>data = Some storedRow, error = None\<rparr>" namePatch]
  by (simp add: updatePayload_def namePatch_def storedRow_def signedIn_def)

subsection \<open>Adding a profile\<close>

text \<open>
  C5 as stated asks that \<open>addProfile\<close> rejects an input without role and name before
  any insert. \<open>addProfile\<close> has no validation: for \<open>{}\<close> it sends the insert, and
  when the remote store accepts it the profile is returned and appended.
\<close>

theorem addProfile_empty_input_inserted:
  "addProfile (Resolved \<lparr>data = Some createdRow, error = None\<rparr>) emptyInput
       \<lparr>currentProfile = None, profiles = []\<rparr>
     = (Inr (mapRowToProfile createdRow),
        \<lparr>currentProfile = None, profiles = [mapRowToProfile createdRow]\<rparr>,
        [ProfileInsert
           \<lparr> i_account_id = Undefined, i_full_name = Undefined, i_role = Undefined,
             i_email = Null, i_phone = Null, i_is_active = Val True \<rparr>])"
  by (simp add: addProfile_def insertPayload_def emptyInput_def Let_def)

text \<open>
  C5, amended. \<open>addProfile\<close> does not validate its input: for every input it sends
  exactly one insert, with the payload built from the input, and what it returns or
  throws depends only on the answer of the remote store. When the insert is rejected or
  answered with an error, \<open>addProfile\<close> throws that error; when it is answered with
  neither an error nor a row, it throws a TypeError; in both cases the profiles stay as
  they were. When it is answered with a row and no error, \<open>addProfile\<close> appends the
  profile mapped from the row and returns it.
\<close>

theorem addProfile_always_inserts:
  "snd (snd (addProfile ins p s)) = [ProfileInsert (insertPayload p)]
   \<and> fst (addProfile ins p s) = fst (addProfile ins p' s)
   \<and> fst (snd (addProfile ins p s)) = fst (snd (addProfile ins p' s))
   \<and> addProfile (Resolved \<lparr>data = Some row, error = None\<rparr>) p s
       = (Inr (mapRowToProfile row), s\<lparr>profiles := profiles s @ [mapRowToProfile row]\<rparr>,
          [ProfileInsert (insertPayload p)])
   \<and> addProfile (Resolved \<lparr>data = None, error = None\<rparr>) p s
       = (Inl TypeError, s, [ProfileInsert (insertPayload p)])
   \<and> addProfile (Resolved \<lparr>data = d, error = Some e\<rparr>) p s
       = (Inl e, s, [ProfileInsert (insertPayload p)])
   \<and> addProfile (Rejected e) p s = (Inl e, s, [ProfileInsert (insertPayload p)])"
  by (simp add: addProfile_def Let_def split: awaited.split option.split)

end
